theory Spec2Isabelle
  imports Main "HOL-Library.AList" "HOL-Library.Char_ord" "HOL-Library.List_Lexorder" "HOL-Library.Product_Lexorder"
begin

section \<open>The task routes of the backend (backend/routes/tasks.js)\<close>

text \<open>
  The four handlers of \<^verbatim>\<open>backend/routes/tasks.js\<close> are modelled as functions of the
  task collection (a list of documents, in insertion order), the authenticated user
  (\<^verbatim>\<open>req.user._id\<close>, set by the auth middleware) and the request. A handler returns
  the response it sends and the collection it leaves behind.

  Strings are lists of 8-bit characters: query and body values are taken to be strings of
  Latin-1 characters, one character per UTF-16 code unit, so \<open>length\<close> is JavaScript's
  \<^verbatim>\<open>.length\<close>. Query parameters and body fields are strings or absent (\<open>None\<close> is
  \<^verbatim>\<open>undefined\<close>).
\<close>

subsection \<open>JavaScript values\<close>

text \<open>
  A JavaScript number that holds an integer, or NaN. The integers a request can make the
  handler add here stay exact in a double as long as they are below \<open>2^53\<close>.
\<close>

datatype jsnum = Num int | NaN

fun js_add :: "jsnum \<Rightarrow> jsnum \<Rightarrow> jsnum" where
  "js_add (Num a) (Num b) = Num (a + b)"
| "js_add _ _ = NaN"

fun js_gt :: "jsnum \<Rightarrow> jsnum \<Rightarrow> bool" where
  "js_gt (Num a) (Num b) = (a > b)"
| "js_gt _ _ = False"

definition is_space :: "char \<Rightarrow> bool" where
  \<comment> \<open>JavaScript's white space and line terminators among the Latin-1 characters
      (what \<^verbatim>\<open>\s\<close> matches and what \<^verbatim>\<open>parseInt\<close> skips): TAB, LF, VT, FF, CR, SP, NBSP.\<close>
  "is_space c = (c \<in> set [CHR 0x09, CHR 0x0A, CHR 0x0B, CHR 0x0C, CHR 0x0D, CHR 0x20, CHR 0xA0])"

definition digit_of :: "nat \<Rightarrow> char \<Rightarrow> nat option" where
  \<comment> \<open>The value of a digit in the given radix, \<open>None\<close> when the character is not one.\<close>
  "digit_of radix c =
     (let n = (of_char c :: nat);
          v = (if 48 \<le> n \<and> n \<le> 57 then Some (n - 48)
               else if 97 \<le> n \<and> n \<le> 122 then Some (n - 87)
               else if 65 \<le> n \<and> n \<le> 90 then Some (n - 55)
               else None)
      in case v of None \<Rightarrow> None | Some d \<Rightarrow> if d < radix then Some d else None)"

fun parse_digits :: "nat \<Rightarrow> nat option \<Rightarrow> string \<Rightarrow> nat option" where
  "parse_digits radix acc [] = acc"
| "parse_digits radix acc (c # cs) =
     (case digit_of radix c of
        None \<Rightarrow> acc
      | Some d \<Rightarrow> parse_digits radix (Some ((case acc of None \<Rightarrow> 0 | Some a \<Rightarrow> a * radix) + d)) cs)"

definition parseInt :: "string \<Rightarrow> jsnum" where
  \<comment> \<open>\<^verbatim>\<open>parseInt(s)\<close> with no radix: leading white space, a sign, a \<^verbatim>\<open>0x\<close> prefix for
      radix 16, then the longest run of digits; NaN when there is no digit.\<close>
  "parseInt s =
     (let t = dropWhile is_space s;
          neg = (case t of [] \<Rightarrow> False | c # _ \<Rightarrow> c = CHR ''-'');
          u = (case t of [] \<Rightarrow> t | c # r \<Rightarrow> if c = CHR ''-'' \<or> c = CHR ''+'' then r else t);
          hex = (case u of a # b # _ \<Rightarrow> a = CHR ''0'' \<and> (b = CHR ''x'' \<or> b = CHR ''X'') | _ \<Rightarrow> False);
          v = (if hex then drop 2 u else u)
      in case parse_digits (if hex then 16 else 10) None v of
           None \<Rightarrow> NaN
         | Some n \<Rightarrow> Num (if neg then - int n else int n))"

definition trim :: "string \<Rightarrow> string" where
  \<comment> \<open>validator.js \<^verbatim>\<open>trim\<close>: white space removed at both ends.\<close>
  "trim s = rev (dropWhile is_space (rev (dropWhile is_space s)))"

definition truthy :: "string option \<Rightarrow> bool" where
  \<comment> \<open>JavaScript truthiness of a string or \<^verbatim>\<open>undefined\<close>.\<close>
  "truthy v = (case v of None \<Rightarrow> False | Some s \<Rightarrow> s \<noteq> [])"

definition or_default :: "string option \<Rightarrow> string \<Rightarrow> string" where
  \<comment> \<open>A destructuring default: it applies to \<^verbatim>\<open>undefined\<close> only.\<close>
  "or_default v d = (case v of None \<Rightarrow> d | Some s \<Rightarrow> s)"

subsection \<open>Tasks and the collection\<close>

type_synonym objid = string

text \<open>
  Modelled from the spec: \<^verbatim>\<open>backend/models/Task.js\<close>, the Task schema, is not among the
  sources. The fields of a task are those of the spec's data model and of the README:
  title, description (optional), completed, priority, dueDate (optional), user (the
  owner), and the timestamps createdAt and updatedAt, which the store sets when a task is
  saved and refreshes (updatedAt) when it is updated. An ObjectId is written as its 24
  lower-case hexadecimal digits; times are milliseconds.
\<close>

record task =
  task_id :: objid
  title :: string
  description :: "string option"
  completed :: bool
  priority :: string
  dueDate :: "int option"
  user :: objid
  createdAt :: int
  updatedAt :: int

subsection \<open>GET /api/tasks\<close>

record query =
  q_completed :: "string option"
  q_priority :: "string option"
  q_sort :: "string option"
  q_limit :: "string option"
  q_skip :: "string option"

record tfilter =
  f_user :: objid
  f_completed :: "bool option"
  f_priority :: "string option"

definition build_filter :: "objid \<Rightarrow> query \<Rightarrow> tfilter" where
  \<comment> \<open>Lines 19-27: the filter object.\<close>
  "build_filter uid q =
     \<lparr> f_user = uid,
       f_completed = (case q_completed q of None \<Rightarrow> None | Some c \<Rightarrow> Some (c = ''true'')),
       f_priority = (if truthy (q_priority q) then q_priority q else None) \<rparr>"

definition set_prop :: "(string \<times> int) list \<Rightarrow> string \<Rightarrow> int \<Rightarrow> (string \<times> int) list" where
  \<comment> \<open>\<^verbatim>\<open>obj[key] = n\<close> on an object made by a literal, as the list of its own properties.
      The key \<^verbatim>\<open>__proto__\<close> names the accessor inherited from Object.prototype, whose
      setter ignores a number: no own property is made.\<close>
  "set_prop obj key n =
     (if key = ''__proto__'' then obj else AList.update key n obj)"

definition parse_sort :: "string \<Rightarrow> (string \<times> int) list" where
  \<comment> \<open>Lines 30-35: the sort options.\<close>
  "parse_sort s =
     (case s of
        c # r \<Rightarrow> if c = CHR ''-'' then set_prop [] r (- 1) else set_prop [] s 1
      | [] \<Rightarrow> set_prop [] s 1)"

definition matches :: "tfilter \<Rightarrow> task \<Rightarrow> bool" where
  \<comment> \<open>A document matches a filter when it agrees with it on every key the filter has.\<close>
  "matches f t =
     (user t = f_user f
      \<and> (case f_completed f of None \<Rightarrow> True | Some b \<Rightarrow> completed t = b)
      \<and> (case f_priority f of None \<Rightarrow> True | Some p \<Rightarrow> priority t = p))"

definition field_key :: "string \<Rightarrow> task \<Rightarrow> nat \<times> int \<times> string" where
  \<comment> \<open>The value a document is ordered by under a sort on one field, in MongoDB's order of
      types: missing or null first, then strings, ObjectIds, booleans, dates.\<close>
  "field_key f t =
     (if f = ''_id'' then (2, 0, task_id t)
      else if f = ''title'' then (1, 0, title t)
      else if f = ''description'' then (case description t of None \<Rightarrow> (0, 0, []) | Some d \<Rightarrow> (1, 0, d))
      else if f = ''completed'' then (3, if completed t then 1 else 0, [])
      else if f = ''priority'' then (1, 0, priority t)
      else if f = ''dueDate'' then (case dueDate t of None \<Rightarrow> (0, 0, []) | Some d \<Rightarrow> (4, d, []))
      else if f = ''user'' then (2, 0, user t)
      else if f = ''createdAt'' then (4, createdAt t, [])
      else if f = ''updatedAt'' then (4, updatedAt t, [])
      else (0, 0, []))"

definition sort_docs :: "(string \<times> int) list \<Rightarrow> task list \<Rightarrow> task list" where
  \<comment> \<open>\<^verbatim>\<open>.sort(sortOptions)\<close>: documents with equal keys keep their order.\<close>
  "sort_docs spec xs =
     (case spec of
        [] \<Rightarrow> xs
      | (f, d) # _ \<Rightarrow>
          if d < 0 then rev (sort_key (field_key f) (rev xs)) else sort_key (field_key f) xs)"

definition page :: "jsnum \<Rightarrow> jsnum \<Rightarrow> task list \<Rightarrow> task list option" where
  \<comment> \<open>\<^verbatim>\<open>.limit(l).skip(s)\<close> as MongoDB's find applies them: skip first, then limit; limit 0
      is no limit and a negative limit counts as its absolute value; \<open>None\<close> when the
      store refuses the command (a negative skip, NaN).\<close>
  "page lim sk xs =
     (case sk of
        NaN \<Rightarrow> None
      | Num s \<Rightarrow>
          (case lim of
             NaN \<Rightarrow> None
           | Num l \<Rightarrow>
               if s < 0 then None
               else Some (if l = 0 then drop (nat s) xs else take (nat \<bar>l\<bar>) (drop (nat s) xs))))"

definition find_tasks ::
  "task list \<Rightarrow> tfilter \<Rightarrow> (string \<times> int) list \<Rightarrow> jsnum \<Rightarrow> jsnum \<Rightarrow> task list option" where
  \<comment> \<open>Lines 37-40: \<^verbatim>\<open>Task.find(filter).sort(sortOptions).limit(..).skip(..)\<close>.\<close>
  "find_tasks store f spec lim sk = page lim sk (sort_docs spec (filter (matches f) store))"

definition countDocuments :: "task list \<Rightarrow> tfilter \<Rightarrow> int" where
  "countDocuments store f = int (length (filter (matches f) store))"

record pagination =
  total :: int
  p_limit :: jsnum
  p_skip :: jsnum
  hasMore :: bool

record verror =
  param :: string
  msg :: string

datatype response =
    TaskList "task list" pagination
  | Created task
  | Updated task
  | Deleted
  | ValidationFailed "verror list"
  | NotFound
  | ServerError string

fun status :: "response \<Rightarrow> nat" where
  "status (TaskList _ _) = 200"
| "status (Created _) = 201"
| "status (Updated _) = 200"
| "status Deleted = 200"
| "status (ValidationFailed _) = 400"
| "status NotFound = 404"
| "status (ServerError _) = 500"

definition get_tasks :: "task list \<Rightarrow> objid \<Rightarrow> query \<Rightarrow> response" where
  \<comment> \<open>Lines 14-61. A store fault is caught and answered with 500.\<close>
  "get_tasks store uid q =
     (let sort = or_default (q_sort q) ''-createdAt'';
          limit = or_default (q_limit q) ''10'';
          skip = or_default (q_skip q) ''0'';
          f = build_filter uid q;
          sortOptions = parse_sort sort
      in case find_tasks store f sortOptions (parseInt limit) (parseInt skip) of
           None \<Rightarrow> ServerError ''Server error fetching tasks''
         | Some tasks \<Rightarrow>
             let total = countDocuments store f
             in TaskList tasks
                  \<lparr> total = total,
                    p_limit = parseInt limit,
                    p_skip = parseInt skip,
                    hasMore = js_gt (Num total) (js_add (parseInt skip) (parseInt limit)) \<rparr>)"

subsection \<open>Request validation (express-validator)\<close>

type_synonym body = "string \<Rightarrow> string option"

text \<open>
  The libraries the handlers call and the schema the model file declares, where a claim
  does not rest on what they compute: validator.js's test of the ISO 8601 date syntax,
  JavaScript's reading of a date string (\<open>None\<close> is an invalid Date), and the validators
  of the Task schema, which \<^verbatim>\<open>save\<close> runs on a new document and
  \<^verbatim>\<open>findOneAndUpdate\<close> (with \<^verbatim>\<open>runValidators\<close>) on the cast update.
\<close>

record upd =
  u_title :: "string option"
  u_description :: "string option"
  u_completed :: "bool option"
  u_priority :: "string option"
  u_dueDate :: "int option option"
  u_user :: "objid option"

record lib =
  isISO8601 :: "string \<Rightarrow> bool"
  castDate :: "string \<Rightarrow> int option"
  validateDoc :: "task \<Rightarrow> bool"
  validateUpdate :: "upd \<Rightarrow> bool"

definition isLength :: "nat \<Rightarrow> nat \<Rightarrow> string \<Rightarrow> bool" where
  "isLength lo hi s = (lo \<le> length s \<and> length s \<le> hi)"

definition isIn :: "string list \<Rightarrow> string \<Rightarrow> bool" where
  "isIn options s = (s \<in> set options)"

definition isBoolean :: "string \<Rightarrow> bool" where
  "isBoolean s = (s \<in> set [''true'', ''false'', ''1'', ''0''])"

definition is_hex :: "char \<Rightarrow> bool" where
  "is_hex c = (c \<in> set ''0123456789abcdefABCDEF'')"

definition isMongoId :: "string \<Rightarrow> bool" where
  \<comment> \<open>The shape of an ObjectId: 24 hexadecimal digits.\<close>
  "isMongoId s = (length s = 24 \<and> list_all is_hex s)"

text \<open>
  A validation chain on one body field, as the routes build them: \<^verbatim>\<open>optional()\<close> skips
  the chain when the field is absent, the validator runs on the value as a string (the
  empty string for an absent field), and a \<^verbatim>\<open>trim()\<close> written after the validator
  rewrites the field after the validator has run.
\<close>

record chain =
  c_field :: string
  c_optional :: bool
  c_check :: "string \<Rightarrow> bool"
  c_msg :: string
  c_trim :: bool

definition violated :: "body \<Rightarrow> chain \<Rightarrow> bool" where
  "violated b ch =
     (case b (c_field ch) of
        None \<Rightarrow> (if c_optional ch then False else \<not> c_check ch [])
      | Some v \<Rightarrow> \<not> c_check ch v)"

definition run_chain :: "body \<Rightarrow> chain \<Rightarrow> verror list" where
  "run_chain b ch = (if violated b ch then [\<lparr> param = c_field ch, msg = c_msg ch \<rparr>] else [])"

definition sanitize :: "chain \<Rightarrow> body \<Rightarrow> body" where
  "sanitize ch b =
     (if c_trim ch
      then (case b (c_field ch) of None \<Rightarrow> b | Some v \<Rightarrow> b(c_field ch \<mapsto> trim v))
      else b)"

fun run_chains :: "chain list \<Rightarrow> body \<Rightarrow> verror list \<times> body" where
  \<comment> \<open>The chains run in the order of the route's array; every chain runs, and the errors
      of all of them are what \<^verbatim>\<open>validationResult(req).array()\<close> returns.\<close>
  "run_chains [] b = ([], b)"
| "run_chains (ch # chs) b =
     (case run_chains chs (sanitize ch b) of
        (errors, b') \<Rightarrow> (run_chain b ch @ errors, b'))"

definition priorities :: "string list" where
  "priorities = [''low'', ''medium'', ''high'']"

definition create_chains :: "lib \<Rightarrow> chain list" where
  \<comment> \<open>Lines 66-84.\<close>
  "create_chains L =
     [ \<lparr> c_field = ''title'', c_optional = False, c_check = isLength 1 100,
         c_msg = ''Title is required and must be less than 100 characters'', c_trim = True \<rparr>,
       \<lparr> c_field = ''description'', c_optional = True, c_check = isLength 0 500,
         c_msg = ''Description must be less than 500 characters'', c_trim = True \<rparr>,
       \<lparr> c_field = ''priority'', c_optional = True, c_check = isIn priorities,
         c_msg = ''Priority must be low, medium, or high'', c_trim = False \<rparr>,
       \<lparr> c_field = ''dueDate'', c_optional = True, c_check = isISO8601 L,
         c_msg = ''Due date must be a valid date'', c_trim = False \<rparr> ]"

definition update_chains :: "lib \<Rightarrow> chain list" where
  \<comment> \<open>Lines 129-150, the chains on the body.\<close>
  "update_chains L =
     [ \<lparr> c_field = ''title'', c_optional = True, c_check = isLength 1 100,
         c_msg = ''Title must be less than 100 characters'', c_trim = True \<rparr>,
       \<lparr> c_field = ''description'', c_optional = True, c_check = isLength 0 500,
         c_msg = ''Description must be less than 500 characters'', c_trim = True \<rparr>,
       \<lparr> c_field = ''completed'', c_optional = True, c_check = isBoolean,
         c_msg = ''Completed must be a boolean'', c_trim = False \<rparr>,
       \<lparr> c_field = ''priority'', c_optional = True, c_check = isIn priorities,
         c_msg = ''Priority must be low, medium, or high'', c_trim = False \<rparr>,
       \<lparr> c_field = ''dueDate'', c_optional = True, c_check = isISO8601 L,
         c_msg = ''Due date must be a valid date'', c_trim = False \<rparr> ]"

definition id_errors :: "string \<Rightarrow> verror list" where
  \<comment> \<open>\<^verbatim>\<open>param('id').isMongoId().withMessage('Invalid task ID')\<close>.\<close>
  "id_errors i = (if isMongoId i then [] else [\<lparr> param = ''id'', msg = ''Invalid task ID'' \<rparr>])"

subsection \<open>POST /api/tasks\<close>

definition cast_due :: "lib \<Rightarrow> string option \<Rightarrow> int option option" where
  \<comment> \<open>\<^verbatim>\<open>dueDate ? new Date(dueDate) : undefined\<close>; the outer \<open>None\<close> is an invalid Date,
      which the document refuses when it is saved.\<close>
  "cast_due L v =
     (case v of
        None \<Rightarrow> Some None
      | Some d \<Rightarrow>
          if d = [] then Some None
          else (case castDate L d of None \<Rightarrow> None | Some ms \<Rightarrow> Some (Some ms)))"

definition default_completed :: bool where
  \<comment> \<open>Modelled from the spec: the default the Task schema (models/Task.js, not among the
      sources) gives \<open>completed\<close>; the spec's data model and the README say false.\<close>
  "default_completed = False"

definition new_task ::
  "objid \<Rightarrow> int \<Rightarrow> objid \<Rightarrow> string \<Rightarrow> string option \<Rightarrow> string option \<Rightarrow> int option \<Rightarrow> task" where
  \<comment> \<open>Lines 98-104, \<^verbatim>\<open>new Task({...})\<close>, with the identifier the document is given and the
      time it is saved at. The handler passes no \<open>completed\<close>: the schema's default
      stands.\<close>
  "new_task oid now uid t d p due =
     \<lparr> task_id = oid, title = t, description = d, completed = default_completed,
       priority = (if truthy p then or_default p [] else ''medium''),
       dueDate = due, user = uid, createdAt = now, updatedAt = now \<rparr>"

definition post_tasks ::
  "lib \<Rightarrow> objid \<Rightarrow> int \<Rightarrow> task list \<Rightarrow> objid \<Rightarrow> body \<Rightarrow> response \<times> task list" where
  \<comment> \<open>Lines 84-120. The handler reads title, description, priority and dueDate of the
      body as the chains left it. A document without a title, with an invalid date or
      refused by the schema's validators makes \<^verbatim>\<open>save\<close> throw: 500.\<close>
  "post_tasks L oid now store uid b =
     (case run_chains (create_chains L) b of
        (errors, b') \<Rightarrow>
          if errors \<noteq> [] then (ValidationFailed errors, store)
          else
            (case b' ''title'' of
               None \<Rightarrow> (ServerError ''Server error creating task'', store)
             | Some t \<Rightarrow>
                 (case cast_due L (b' ''dueDate'') of
                    None \<Rightarrow> (ServerError ''Server error creating task'', store)
                  | Some due \<Rightarrow>
                      let task = new_task oid now uid t (b' ''description'') (b' ''priority'') due
                      in if validateDoc L task then (Created task, store @ [task])
                         else (ServerError ''Server error creating task'', store))))"

subsection \<open>PUT /api/tasks/:id and DELETE /api/tasks/:id\<close>

definition lower :: "char \<Rightarrow> char" where
  "lower c =
     (if c = CHR ''A'' then CHR ''a'' else if c = CHR ''B'' then CHR ''b''
      else if c = CHR ''C'' then CHR ''c'' else if c = CHR ''D'' then CHR ''d''
      else if c = CHR ''E'' then CHR ''e'' else if c = CHR ''F'' then CHR ''f'' else c)"

definition castObjectId :: "string \<Rightarrow> objid option" where
  \<comment> \<open>Mongoose's cast of a string to an ObjectId: 24 hexadecimal digits in either case
      name the identifier; anything else is a cast error.\<close>
  "castObjectId s = (if isMongoId s then Some (map lower s) else None)"

definition castBoolean :: "string \<Rightarrow> bool option" where
  \<comment> \<open>Mongoose's cast of a string to a Boolean.\<close>
  "castBoolean s =
     (if s \<in> set [''true'', ''1'', ''yes''] then Some True
      else if s \<in> set [''false'', ''0'', ''no''] then Some False
      else None)"

definition castDateNull :: "lib \<Rightarrow> string \<Rightarrow> int option option" where
  \<comment> \<open>Mongoose's cast of a string to a Date: the empty string is null.\<close>
  "castDateNull L s =
     (if s = [] then Some None
      else (case castDate L s of None \<Rightarrow> None | Some ms \<Rightarrow> Some (Some ms)))"

definition cast_field :: "(string \<Rightarrow> 'a option) \<Rightarrow> string option \<Rightarrow> 'a option option" where
  \<comment> \<open>The cast of one key of the update; the outer \<open>None\<close> is a cast error.\<close>
  "cast_field c v =
     (case v of
        None \<Rightarrow> Some None
      | Some s \<Rightarrow> (case c s of None \<Rightarrow> None | Some x \<Rightarrow> Some (Some x)))"

definition cast_update :: "lib \<Rightarrow> body \<Rightarrow> upd option" where
  \<comment> \<open>The update document Mongoose makes of \<^verbatim>\<open>req.body\<close>: every key that is a path of
      the schema, cast to the type of the path; other keys are dropped. \<open>None\<close> is a cast
      error. (A body that names \<^verbatim>\<open>_id\<close> or a timestamp is outside this model.)\<close>
  "cast_update L b =
     (case cast_field castBoolean (b ''completed'') of
        None \<Rightarrow> None
      | Some c \<Rightarrow>
          (case cast_field (castDateNull L) (b ''dueDate'') of
             None \<Rightarrow> None
           | Some d \<Rightarrow>
               (case cast_field castObjectId (b ''user'') of
                  None \<Rightarrow> None
                | Some u \<Rightarrow>
                    Some \<lparr> u_title = b ''title'', u_description = b ''description'',
                           u_completed = c, u_priority = b ''priority'',
                           u_dueDate = d, u_user = u \<rparr>)))"

definition apply_update :: "upd \<Rightarrow> int \<Rightarrow> task \<Rightarrow> task" where
  \<comment> \<open>\<^verbatim>\<open>$set\<close> of the keys of the update; the timestamps option refreshes updatedAt.\<close>
  "apply_update u now t =
     t \<lparr> title := (case u_title u of None \<Rightarrow> title t | Some v \<Rightarrow> v),
         description := (case u_description u of None \<Rightarrow> description t | Some v \<Rightarrow> Some v),
         completed := (case u_completed u of None \<Rightarrow> completed t | Some v \<Rightarrow> v),
         priority := (case u_priority u of None \<Rightarrow> priority t | Some v \<Rightarrow> v),
         dueDate := (case u_dueDate u of None \<Rightarrow> dueDate t | Some v \<Rightarrow> v),
         user := (case u_user u of None \<Rightarrow> user t | Some v \<Rightarrow> v),
         updatedAt := now \<rparr>"

definition owned :: "objid \<Rightarrow> objid \<Rightarrow> task \<Rightarrow> bool" where
  \<comment> \<open>The filter \<^verbatim>\<open>{ _id: id, user: req.user._id }\<close>.\<close>
  "owned oid uid t = (task_id t = oid \<and> user t = uid)"

fun update_first :: "(task \<Rightarrow> bool) \<Rightarrow> (task \<Rightarrow> task) \<Rightarrow> task list \<Rightarrow> task list" where
  "update_first P f [] = []"
| "update_first P f (x # xs) = (if P x then f x # xs else x # update_first P f xs)"

fun remove_first :: "(task \<Rightarrow> bool) \<Rightarrow> task list \<Rightarrow> task list" where
  "remove_first P [] = []"
| "remove_first P (x # xs) = (if P x then xs else x # remove_first P xs)"

definition findOneAndUpdate ::
  "lib \<Rightarrow> int \<Rightarrow> task list \<Rightarrow> string \<Rightarrow> objid \<Rightarrow> body \<Rightarrow> (task option \<times> task list) option" where
  \<comment> \<open>Lines 167-171, with \<^verbatim>\<open>{ new: true, runValidators: true }\<close>: the update is cast and
      validated before the store is asked; \<open>None\<close> is a thrown error; the first matching
      document is updated and returned as updated, or null when none matches.\<close>
  "findOneAndUpdate L now store i uid b =
     (case cast_update L b of
        None \<Rightarrow> None
      | Some u \<Rightarrow>
          if \<not> validateUpdate L u then None
          else
            (case castObjectId i of
               None \<Rightarrow> None
             | Some oid \<Rightarrow>
                 (case find (owned oid uid) store of
                    None \<Rightarrow> Some (None, store)
                  | Some t \<Rightarrow>
                      Some (Some (apply_update u now t),
                            update_first (owned oid uid) (apply_update u now) store))))"

definition put_task ::
  "lib \<Rightarrow> int \<Rightarrow> task list \<Rightarrow> objid \<Rightarrow> string \<Rightarrow> body \<Rightarrow> response \<times> task list" where
  \<comment> \<open>Lines 151-192; \<^verbatim>\<open>updates\<close> is the whole body, as the chains left it.\<close>
  "put_task L now store uid i b =
     (case run_chains (update_chains L) b of
        (errors, updates) \<Rightarrow>
          if id_errors i @ errors \<noteq> [] then (ValidationFailed (id_errors i @ errors), store)
          else
            (case findOneAndUpdate L now store i uid updates of
               None \<Rightarrow> (ServerError ''Server error updating task'', store)
             | Some (None, store') \<Rightarrow> (NotFound, store')
             | Some (Some task, store') \<Rightarrow> (Updated task, store')))"

definition findOneAndDelete :: "task list \<Rightarrow> string \<Rightarrow> objid \<Rightarrow> (task option \<times> task list) option" where
  \<comment> \<open>Lines 216-219: the first matching document is removed and returned, or null.\<close>
  "findOneAndDelete store i uid =
     (case castObjectId i of
        None \<Rightarrow> None
      | Some oid \<Rightarrow>
          (case find (owned oid uid) store of
             None \<Rightarrow> Some (None, store)
           | Some t \<Rightarrow> Some (Some t, remove_first (owned oid uid) store)))"

definition delete_task :: "task list \<Rightarrow> objid \<Rightarrow> string \<Rightarrow> response \<times> task list" where
  \<comment> \<open>Lines 201-239.\<close>
  "delete_task store uid i =
     (if id_errors i \<noteq> [] then (ValidationFailed (id_errors i), store)
      else
        (case findOneAndDelete store i uid of
           None \<Rightarrow> (ServerError ''Server error deleting task'', store)
         | Some (None, store') \<Rightarrow> (NotFound, store')
         | Some (Some task, store') \<Rightarrow> (Deleted, store')))"

subsection \<open>A small collection for worked examples\<close>

text \<open>
  Two users and three tasks, and an instance of the libraries that knows one date string
  and whose schema validators ask for a title that is not empty (the README: title is
  required).
\<close>

definition alice :: objid where
  "alice = ''aaaaaaaaaaaaaaaaaaaaaaaa''"

definition bob :: objid where
  "bob = ''bbbbbbbbbbbbbbbbbbbbbbbb''"

definition task1 :: task where
  "task1 = \<lparr> task_id = ''000000000000000000000001'', title = ''Buy milk'', description = None,
             completed = False, priority = ''medium'', dueDate = None, user = alice,
             createdAt = 1000, updatedAt = 1000 \<rparr>"

definition task2 :: task where
  "task2 = \<lparr> task_id = ''000000000000000000000002'', title = ''Pay rent'', description = Some ''monthly'',
             completed = True, priority = ''high'', dueDate = None, user = bob,
             createdAt = 2000, updatedAt = 2000 \<rparr>"

definition task3 :: task where
  "task3 = \<lparr> task_id = ''000000000000000000000003'', title = ''Call mum'', description = None,
             completed = True, priority = ''low'', dueDate = None, user = alice,
             createdAt = 3000, updatedAt = 3000 \<rparr>"

definition store0 :: "task list" where
  "store0 = [task1, task2, task3]"

definition lib0 :: lib where
  "lib0 = \<lparr> isISO8601 = (\<lambda>s. s = ''2030-01-01''),
            castDate = (\<lambda>s. if s = ''2030-01-01'' then Some 1893456000000 else None),
            validateDoc = (\<lambda>t. title t \<noteq> []),
            validateUpdate = (\<lambda>u. u_title u \<noteq> Some []) \<rparr>"

definition no_query :: query where
  "no_query = \<lparr> q_completed = None, q_priority = None, q_sort = None, q_limit = None, q_skip = None \<rparr>"

section \<open>Properties\<close>

lemma set_sort_docs: "set (sort_docs spec xs) = set xs"
  by (auto simp: sort_docs_def split: list.splits)

lemma set_page: "page lim sk xs = Some ys \<Longrightarrow> set ys \<subseteq> set xs"
  by (auto simp: page_def split: jsnum.splits if_splits dest: in_set_takeD in_set_dropD)

lemma run_chain_sanitize:
  "c_field ch \<noteq> c_field ch' \<Longrightarrow> run_chain (sanitize ch b) ch' = run_chain b ch'"
  by (simp add: run_chain_def violated_def sanitize_def split: option.splits)

lemma fst_run_chains:
  "distinct (map c_field chs) \<Longrightarrow> fst (run_chains chs b) = concat (map (run_chain b) chs)"
proof (induction chs arbitrary: b)
  case Nil
  then show ?case by simp
next
  case (Cons ch chs)
  have later: "run_chain (sanitize ch b) ch' = run_chain b ch'" if "ch' \<in> set chs" for ch'
    using that Cons.prems by (intro run_chain_sanitize) auto
  have "fst (run_chains chs (sanitize ch b)) = concat (map (run_chain (sanitize ch b)) chs)"
    using Cons by simp
  also have "\<dots> = concat (map (run_chain b) chs)"
    using later by (simp cong: map_cong)
  finally show ?case
    by (simp add: case_prod_beta)
qed

lemma create_fields_distinct: "distinct (map c_field (create_chains L))"
  by (simp add: create_chains_def)

lemma update_fields_distinct: "distinct (map c_field (update_chains L))"
  by (simp add: update_chains_def)

lemma snd_run_chains_create:
  "snd (run_chains (create_chains L) b) k =
     (if k = ''title'' \<or> k = ''description'' then map_option trim (b k) else b k)"
  by (simp add: create_chains_def sanitize_def split: option.splits prod.splits)

lemma snd_run_chains_update:
  "snd (run_chains (update_chains L) b) k =
     (if k = ''title'' \<or> k = ''description'' then map_option trim (b k) else b k)"
  by (simp add: update_chains_def sanitize_def split: option.splits prod.splits)

lemma create_errors:
  "fst (run_chains (create_chains L) b) = concat (map (run_chain b) (create_chains L))"
  by (rule fst_run_chains [OF create_fields_distinct])

lemma title_error_iff:
  "(\<lparr> param = ''title'', msg = ''Title is required and must be less than 100 characters'' \<rparr>
      \<in> set (fst (run_chains (create_chains L) b)))
   \<longleftrightarrow> \<not> (1 \<le> length (or_default (b ''title'') []) \<and> length (or_default (b ''title'') []) \<le> 100)"
  by (auto simp: create_errors create_chains_def run_chain_def violated_def isLength_def or_default_def
      split: option.splits)

lemma update_errors:
  "fst (run_chains (update_chains L) b) = concat (map (run_chain b) (update_chains L))"
  by (rule fst_run_chains [OF update_fields_distinct])

lemma set_find_tasks:
  "find_tasks store f spec lim sk = Some ts \<Longrightarrow> set ts \<subseteq> {t \<in> set store. matches f t}"
  using set_page [of lim sk "sort_docs spec (filter (matches f) store)" ts]
  by (simp add: find_tasks_def set_sort_docs)

lemma get_tasks_TaskList:
  "get_tasks store uid q = TaskList ts pg \<Longrightarrow>
     find_tasks store (build_filter uid q) (parse_sort (or_default (q_sort q) ''-createdAt''))
       (parseInt (or_default (q_limit q) ''10'')) (parseInt (or_default (q_skip q) ''0'')) = Some ts
     \<and> pg = \<lparr> total = countDocuments store (build_filter uid q),
              p_limit = parseInt (or_default (q_limit q) ''10''),
              p_skip = parseInt (or_default (q_skip q) ''0''),
              hasMore = js_gt (Num (countDocuments store (build_filter uid q)))
                          (js_add (parseInt (or_default (q_skip q) ''0''))
                                  (parseInt (or_default (q_limit q) ''10''))) \<rparr>"
  by (auto simp: get_tasks_def Let_def split: option.splits)

text \<open>
  Claim C1. For every GET /tasks request of an authenticated user, whatever the query
  parameters: the filter the handler builds has the requester as its user; every task of
  a returned list is a task of the collection that matches that filter; and every task
  of a returned list is owned by the requester (so no task of another user appears).
\<close>

theorem get_tasks_owner_scoped:
  "f_user (build_filter uid q) = uid \<and>
   (\<forall>ts pg. get_tasks store uid q = TaskList ts pg \<longrightarrow>
      set ts \<subseteq> {t \<in> set store. matches (build_filter uid q) t} \<and> (\<forall>t \<in> set ts. user t = uid))"
proof -
  have scoped: "f_user (build_filter uid q) = uid"
    by (simp add: build_filter_def)
  have "set ts \<subseteq> {t \<in> set store. matches (build_filter uid q) t} \<and> (\<forall>t \<in> set ts. user t = uid)"
    if "get_tasks store uid q = TaskList ts pg" for ts pg
  proof -
    from that have sub: "set ts \<subseteq> {t \<in> set store. matches (build_filter uid q) t}"
      by (blast dest: get_tasks_TaskList set_find_tasks)
    moreover have "user t = uid" if "t \<in> set ts" for t
      using sub that scoped by (auto simp: matches_def)
    ultimately show ?thesis by blast
  qed
  with scoped show ?thesis by blast
qed

lemmas example_defs = store0_def task1_def task2_def task3_def alice_def bob_def lib0_def no_query_def

lemmas get_defs = get_tasks_def or_default_def build_filter_def truthy_def parse_sort_def set_prop_def
  find_tasks_def matches_def countDocuments_def parseInt_def is_space_def digit_of_def page_def
  sort_docs_def field_key_def

text \<open>
  On the example collection, which holds a task of bob, alice's list holds her two tasks.
\<close>

theorem get_tasks_owner_scoped_witness:
  "get_tasks store0 alice no_query =
     TaskList [task3, task1] \<lparr> total = 2, p_limit = Num 10, p_skip = Num 0, hasMore = False \<rparr>
   \<and> user task3 = alice \<and> user task1 = alice \<and> user task2 = bob \<and> bob \<noteq> alice"
  using get_tasks_owner_scoped [of alice no_query store0]
  by (simp add: get_defs example_defs)

text \<open>
  Claim C2. In every successful GET /tasks response, total is the number of documents
  that match the filter (limit and skip play no part in it), skip and limit are the
  parsed query parameters, and hasMore is true exactly when total > skip + limit; should
  one of the two be NaN, hasMore is false, as JavaScript's comparison with NaN is.
\<close>

theorem get_tasks_hasMore:
  "get_tasks store uid q = TaskList ts pg \<Longrightarrow>
     total pg = int (length (filter (matches (build_filter uid q)) store)) \<and>
     p_skip pg = parseInt (or_default (q_skip q) ''0'') \<and>
     p_limit pg = parseInt (or_default (q_limit q) ''10'') \<and>
     (\<forall>s l. p_skip pg = Num s \<longrightarrow> p_limit pg = Num l \<longrightarrow> (hasMore pg \<longleftrightarrow> total pg > s + l)) \<and>
     ((p_skip pg = NaN \<or> p_limit pg = NaN) \<longrightarrow> \<not> hasMore pg)"
proof -
  assume "get_tasks store uid q = TaskList ts pg"
  then have pg: "pg = \<lparr> total = countDocuments store (build_filter uid q),
              p_limit = parseInt (or_default (q_limit q) ''10''),
              p_skip = parseInt (or_default (q_skip q) ''0''),
              hasMore = js_gt (Num (countDocuments store (build_filter uid q)))
                          (js_add (parseInt (or_default (q_skip q) ''0''))
                                  (parseInt (or_default (q_limit q) ''10''))) \<rparr>"
    by (simp add: get_tasks_TaskList)
  show ?thesis
    by (cases "parseInt (or_default (q_skip q) ''0'')"; cases "parseInt (or_default (q_limit q) ''10'')")
       (simp_all add: pg countDocuments_def)
qed

text \<open>
  With limit 1 alice sees one of her two tasks, and hasMore is true.
\<close>

theorem get_tasks_hasMore_witness:
  "get_tasks store0 alice (no_query\<lparr>q_limit := Some ''1''\<rparr>) =
     TaskList [task3] \<lparr> total = 2, p_limit = Num 1, p_skip = Num 0, hasMore = True \<rparr>
   \<and> (2::int) > 0 + 1"
  using get_tasks_hasMore [of store0 alice "no_query\<lparr>q_limit := Some ''1''\<rparr>" "[task3]"
      "\<lparr> total = 2, p_limit = Num 1, p_skip = Num 0, hasMore = True \<rparr>"]
  by (simp add: get_defs example_defs)

lemma parse_sort_descending:
  "f \<noteq> ''__proto__'' \<Longrightarrow> parse_sort (CHR ''-'' # f) = [(f, - 1)]"
  by (simp add: parse_sort_def set_prop_def)

lemma parse_sort_ascending:
  "s \<noteq> ''__proto__'' \<Longrightarrow> (\<forall>r. s \<noteq> CHR ''-'' # r) \<Longrightarrow> parse_sort s = [(s, 1)]"
  by (cases s) (auto simp: parse_sort_def set_prop_def)

lemma parse_sort_default:
  "parse_sort (or_default None ''-createdAt'') = [(''createdAt'', - 1)]"
  by (simp add: parse_sort_def set_prop_def or_default_def)

text \<open>
  Claim C6, at the inputs where the code departs from it. The sort strings
  \<^verbatim>\<open>__proto__\<close> and \<^verbatim>\<open>-__proto__\<close> give no sort field at all: the assignment
  \<^verbatim>\<open>sortOptions['__proto__'] = 1\<close> reaches the setter of Object.prototype, which
  ignores a number, and \<^verbatim>\<open>sortOptions\<close> stays empty. For every other string the
  sort specification has the single field the claim names (the three lemmas above).
\<close>

theorem parse_sort_proto_no_field:
  "parse_sort ''__proto__'' = [] \<and> parse_sort ''-__proto__'' = []"
  by (simp add: parse_sort_def set_prop_def)

lemmas chain_defs = create_chains_def update_chains_def run_chain_def violated_def sanitize_def
  isLength_def isIn_def isBoolean_def priorities_def trim_def is_space_def id_errors_def
  isMongoId_def is_hex_def

lemma post_created:
  assumes valid: "fst (run_chains (create_chains L) b) = []"
    and due: "cast_due L (b ''dueDate'') = Some due"
    and doc: "doc = new_task oid now uid (trim (or_default (b ''title'') []))
                      (map_option trim (b ''description'')) (b ''priority'') due"
    and ok: "validateDoc L doc"
  shows "post_tasks L oid now store uid b = (Created doc, store @ [doc])"
proof -
  have "\<not> violated b (hd (create_chains L))"
    using valid by (simp add: create_errors create_chains_def run_chain_def split: if_splits)
  then obtain t where t: "b ''title'' = Some t"
    by (cases "b ''title''") (auto simp: create_chains_def violated_def isLength_def)
  obtain b' where b': "run_chains (create_chains L) b = ([], b')"
    using valid by (cases "run_chains (create_chains L) b") simp
  have fields: "b' k = (if k = ''title'' \<or> k = ''description'' then map_option trim (b k) else b k)" for k
    using snd_run_chains_create [of L b k] b' by simp
  show ?thesis
    using due ok by (simp add: post_tasks_def b' fields t doc or_default_def Let_def)
qed



text \<open>
  Claim C4, at an input where the code departs from it. The length of the title is
  tested before the title is trimmed (\<^verbatim>\<open>isLength\<close> stands before \<^verbatim>\<open>trim\<close> in the
  chain), so a title of three spaces passes the validation although nothing is left of
  it after trimming; no 400 is sent (with a schema that requires a title the answer is
  500).
\<close>

theorem create_blank_title_not_rejected:
  "fst (run_chains (create_chains L) [''title'' \<mapsto> ''   '']) = []
   \<and> length (trim ''   '') = 0
   \<and> fst (post_tasks lib0 ''000000000000000000000009'' 5000 store0 alice [''title'' \<mapsto> ''   ''])
       = ServerError ''Server error creating task''"
  by (simp add: chain_defs cast_due_def new_task_def default_completed_def or_default_def truthy_def lib0_def post_tasks_def)

lemma dropWhile_replicate_append:
  "P x \<Longrightarrow> dropWhile P (replicate n x @ ys) = dropWhile P ys"
  by (induction n) simp_all

text \<open>
  The other direction of the same order of checks: a title that is one letter followed by
  100 spaces is refused with a title error, although its trimmed length is 1.
\<close>

theorem create_padded_title_rejected:
  "fst (post_tasks L oid now store uid [''title'' \<mapsto> CHR ''a'' # replicate 100 (CHR '' '')])
     = ValidationFailed [\<lparr> param = ''title'',
                           msg = ''Title is required and must be less than 100 characters'' \<rparr>]
   \<and> trim (CHR ''a'' # replicate 100 (CHR '' '')) = ''a''"
  by (simp add: chain_defs post_tasks_def dropWhile_replicate_append)



lemma post_tasks_unfold:
  "post_tasks L oid now store uid b =
     (let errors = concat (map (run_chain b) (create_chains L));
          b' = snd (run_chains (create_chains L) b)
      in if errors \<noteq> [] then (ValidationFailed errors, store)
         else
           (case b' ''title'' of
              None \<Rightarrow> (ServerError ''Server error creating task'', store)
            | Some t \<Rightarrow>
                (case cast_due L (b' ''dueDate'') of
                   None \<Rightarrow> (ServerError ''Server error creating task'', store)
                 | Some due \<Rightarrow>
                     let task = new_task oid now uid t (b' ''description'') (b' ''priority'') due
                     in if validateDoc L task then (Created task, store @ [task])
                        else (ServerError ''Server error creating task'', store))))"
  unfolding post_tasks_def create_errors [symmetric]
  by (simp add: case_prod_beta Let_def)

lemma run_chain_cong_field:
  "b' (c_field ch) = b (c_field ch) \<Longrightarrow> run_chain b' ch = run_chain b ch"
  by (simp add: run_chain_def violated_def)

lemma post_reads_four_fields:
  assumes "b' ''title'' = b ''title''" and "b' ''description'' = b ''description''"
    and "b' ''priority'' = b ''priority''" and "b' ''dueDate'' = b ''dueDate''"
  shows "post_tasks L oid now store uid b' = post_tasks L oid now store uid b"
proof -
  have errs: "concat (map (run_chain b') (create_chains L)) = concat (map (run_chain b) (create_chains L))"
    using assms by (simp add: create_chains_def run_chain_def violated_def)
  have f: "snd (run_chains (create_chains L) b') ''title'' = snd (run_chains (create_chains L) b) ''title''"
    "snd (run_chains (create_chains L) b') ''description'' = snd (run_chains (create_chains L) b) ''description''"
    "snd (run_chains (create_chains L) b') ''priority'' = snd (run_chains (create_chains L) b) ''priority''"
    "snd (run_chains (create_chains L) b') ''dueDate'' = snd (run_chains (create_chains L) b) ''dueDate''"
    using assms by (simp_all add: snd_run_chains_create)
  show ?thesis
    unfolding post_tasks_unfold errs Let_def f by (rule refl)
qed

text \<open>
  Claim C10. Take a body that the create route accepts. Whatever is supplied (or not)
  under the keys completed, user and owner, the request is answered as it is without
  them: the task is created, is not completed, and belongs to the requester. (By
  \<open>post_reads_four_fields\<close> the answer depends on title, description, priority and
  dueDate alone.)
\<close>

theorem post_ignores_other_fields:
  assumes "fst (run_chains (create_chains L) b) = []"
    and "cast_due L (b ''dueDate'') = Some due"
    and "validateDoc L (new_task oid now uid (trim (or_default (b ''title'') []))
                          (map_option trim (b ''description'')) (b ''priority'') due)"
  shows "\<exists>task. post_tasks L oid now store uid (b(''completed'' := c, ''user'' := u, ''owner'' := w))
                  = (Created task, store @ [task])
           \<and> completed task = False \<and> user task = uid
           \<and> post_tasks L oid now store uid (b(''completed'' := c, ''user'' := u, ''owner'' := w))
               = post_tasks L oid now store uid b"
proof -
  let ?doc = "new_task oid now uid (trim (or_default (b ''title'') []))
                (map_option trim (b ''description'')) (b ''priority'') due"
  have same: "post_tasks L oid now store uid (b(''completed'' := c, ''user'' := u, ''owner'' := w))
               = post_tasks L oid now store uid b"
    by (rule post_reads_four_fields) simp_all
  have "post_tasks L oid now store uid b = (Created ?doc, store @ [?doc])"
    using assms by (intro post_created) simp_all
  moreover have "completed ?doc = False \<and> user ?doc = uid"
    by (simp add: new_task_def default_completed_def)
  ultimately show ?thesis using same by auto
qed

text \<open>
  Alice posts a task marked completed and owned by bob: it is created not completed and
  hers.
\<close>

theorem post_ignores_other_fields_witness:
  "post_tasks lib0 ''000000000000000000000009'' 5000 store0 alice
       [''title'' \<mapsto> ''Buy milk'', ''completed'' \<mapsto> ''true'', ''user'' \<mapsto> bob, ''owner'' \<mapsto> bob]
     = (Created \<lparr> task_id = ''000000000000000000000009'', title = ''Buy milk'', description = None,
                  completed = False, priority = ''medium'', dueDate = None, user = alice,
                  createdAt = 5000, updatedAt = 5000 \<rparr>,
        store0 @ [\<lparr> task_id = ''000000000000000000000009'', title = ''Buy milk'', description = None,
                  completed = False, priority = ''medium'', dueDate = None, user = alice,
                  createdAt = 5000, updatedAt = 5000 \<rparr>])
   \<and> bob \<noteq> alice"
  using post_ignores_other_fields [where L = lib0 and b = "[''title'' \<mapsto> ''Buy milk'']"
      and due = None and oid = "''000000000000000000000009''" and now = 5000 and uid = alice
      and c = "Some ''true''" and u = "Some bob" and w = "Some bob" and store = store0]
  by (simp add: chain_defs cast_due_def new_task_def default_completed_def or_default_def truthy_def lib0_def post_tasks_def
      Let_def alice_def bob_def)



lemma find_owned_None:
  "(\<forall>t \<in> set store. task_id t = oid \<longrightarrow> user t \<noteq> uid) \<Longrightarrow> find (owned oid uid) store = None"
  by (auto simp: find_None_iff owned_def)

lemma findOneAndUpdate_no_match:
  assumes "isMongoId i" and "find (owned (map lower i) uid) store = None"
  shows "findOneAndUpdate L now store i uid b =
           (case cast_update L b of
              None \<Rightarrow> None
            | Some u \<Rightarrow> if validateUpdate L u then Some (None, store) else None)"
  using assms by (simp add: findOneAndUpdate_def castObjectId_def split: option.splits)

text \<open>
  Claim C7, as amended. Let the identifier be well-formed and let the collection hold no
  task with that identifier that the requester owns (no task has the identifier, or the
  task that has it belongs to another user). Then DELETE answers 404 \<^verbatim>\<open>Task not found\<close>;
  PUT answers the same 404 whenever its body passes the request validation and its update
  is accepted by the cast and by the schema's update validators (a PUT stopped there
  is answered 400 or 500 before the lookup); and in every case, for every body, the
  collection is left as it was.
\<close>

theorem not_found_conflated:
  "isMongoId i \<Longrightarrow> (\<forall>t \<in> set store. task_id t = map lower i \<longrightarrow> user t \<noteq> uid) \<Longrightarrow>
     delete_task store uid i = (NotFound, store)
     \<and> status NotFound = 404
     \<and> (\<forall>b. snd (put_task L now store uid i b) = store)
     \<and> (\<forall>b u. fst (run_chains (update_chains L) b) = [] \<longrightarrow>
               cast_update L (snd (run_chains (update_chains L) b)) = Some u \<longrightarrow>
               validateUpdate L u \<longrightarrow>
               put_task L now store uid i b = (NotFound, store))"
proof -
  assume wf: "isMongoId i" and none: "\<forall>t \<in> set store. task_id t = map lower i \<longrightarrow> user t \<noteq> uid"
  have nf: "find (owned (map lower i) uid) store = None"
    using none by (rule find_owned_None)
  have ids: "id_errors i = []"
    using wf by (simp add: id_errors_def)
  have del: "delete_task store uid i = (NotFound, store)"
    using wf nf by (simp add: delete_task_def ids findOneAndDelete_def castObjectId_def)
  have same: "snd (put_task L now store uid i b) = store" for b
    by (simp add: put_task_def ids case_prod_beta findOneAndUpdate_no_match [OF wf nf]
        split: option.splits)
  have put: "put_task L now store uid i b = (NotFound, store)"
    if "fst (run_chains (update_chains L) b) = []"
      and "cast_update L (snd (run_chains (update_chains L) b)) = Some u"
      and "validateUpdate L u" for b u
    using that by (simp add: put_task_def ids case_prod_beta findOneAndUpdate_no_match [OF wf nf])
  from del same put show ?thesis by simp
qed

lemmas put_defs = put_task_def findOneAndUpdate_def cast_update_def cast_field_def castObjectId_def
  castBoolean_def castDateNull_def apply_update_def owned_def lower_def delete_task_def
  findOneAndDelete_def

text \<open>
  An identifier no task has, and the identifier of bob's task, requested by alice.
\<close>

theorem not_found_conflated_witness:
  "put_task lib0 5000 store0 alice ''000000000000000000000007'' [''title'' \<mapsto> ''x''] = (NotFound, store0)
   \<and> put_task lib0 5000 store0 alice ''000000000000000000000002'' [''title'' \<mapsto> ''x''] = (NotFound, store0)
   \<and> delete_task store0 alice ''000000000000000000000007'' = (NotFound, store0)
   \<and> delete_task store0 alice ''000000000000000000000002'' = (NotFound, store0)
   \<and> task_id task2 = ''000000000000000000000002'' \<and> user task2 = bob \<and> task2 \<in> set store0
   \<and> ''000000000000000000000007'' \<notin> set (map task_id store0)"
  using not_found_conflated [of "''000000000000000000000007''" store0 alice lib0 5000]
    not_found_conflated [of "''000000000000000000000002''" store0 alice lib0 5000]
  by (simp add: chain_defs put_defs example_defs)

text \<open>
  Claim C7 as stated fails: a PUT with a well-formed identifier that no task has and an
  empty title is answered 400, not 404, since the body is validated before the lookup.
\<close>

theorem put_invalid_body_missing_task:
  "isMongoId ''000000000000000000000007''
   \<and> ''000000000000000000000007'' \<notin> set (map task_id store0)
   \<and> put_task lib0 5000 store0 alice ''000000000000000000000007'' [''title'' \<mapsto> '''']
       = (ValidationFailed [\<lparr> param = ''title'', msg = ''Title must be less than 100 characters'' \<rparr>],
          store0)
   \<and> status (ValidationFailed [\<lparr> param = ''title'', msg = ''Title must be less than 100 characters'' \<rparr>])
       \<noteq> 404"
  by (simp add: chain_defs put_defs example_defs)

text \<open>
  Claim C9, at an input where the code departs from it. The whole body is handed to
  \<^verbatim>\<open>findOneAndUpdate\<close>, and user is a path of the schema: alice's PUT with the body
  \<^verbatim>\<open>{user: bob}\<close> on her own task makes bob its owner. (By \<open>put_frame\<close> below a
  successful PUT leaves every field the body does not supply as it was, the identifier and
  createdAt included, and refreshes updatedAt.)
\<close>

theorem put_changes_owner:
  "put_task lib0 5000 store0 alice ''000000000000000000000001'' [''user'' \<mapsto> bob]
     = (Updated (task1\<lparr>user := bob, updatedAt := 5000\<rparr>),
        [task1\<lparr>user := bob, updatedAt := 5000\<rparr>, task2, task3])
   \<and> user task1 = alice \<and> bob \<noteq> alice"
  by (simp add: chain_defs put_defs example_defs)

lemma violated_create_iff:
  "ch \<in> set (create_chains L) \<Longrightarrow>
     violated b ch \<longleftrightarrow>
       (c_field ch = ''title''
          \<and> \<not> (1 \<le> length (or_default (b ''title'') []) \<and> length (or_default (b ''title'') []) \<le> 100))
       \<or> (c_field ch = ''description'' \<and> (\<exists>d. b ''description'' = Some d \<and> length d > 500))
       \<or> (c_field ch = ''priority''
             \<and> (\<exists>p. b ''priority'' = Some p \<and> p \<notin> {''low'', ''medium'', ''high''}))
       \<or> (c_field ch = ''dueDate'' \<and> (\<exists>d. b ''dueDate'' = Some d \<and> \<not> isISO8601 L d))"
  by (auto simp: create_chains_def violated_def isLength_def isIn_def priorities_def or_default_def
      split: option.splits)

lemma put_updated:
  assumes "put_task L now store uid i b = (Updated t', store')"
  shows "\<exists>t u. find (owned (map lower i) uid) store = Some t
           \<and> cast_update L (snd (run_chains (update_chains L) b)) = Some u
           \<and> t' = apply_update u now t
           \<and> store' = update_first (owned (map lower i) uid) (apply_update u now) store"
  using assms
  by (auto simp: put_task_def findOneAndUpdate_def castObjectId_def case_prod_beta
      split: if_splits option.splits)

lemma cast_update_absent:
  assumes "cast_update L b = Some u"
  shows "(b ''title'' = None \<longrightarrow> u_title u = None)
       \<and> (b ''description'' = None \<longrightarrow> u_description u = None)
       \<and> (b ''completed'' = None \<longrightarrow> u_completed u = None)
       \<and> (b ''priority'' = None \<longrightarrow> u_priority u = None)
       \<and> (b ''dueDate'' = None \<longrightarrow> u_dueDate u = None)
       \<and> (b ''user'' = None \<longrightarrow> u_user u = None)"
  using assms by (auto simp: cast_update_def cast_field_def split: option.splits)

lemma put_frame:
  assumes "put_task L now store uid i b = (Updated t', store')"
  shows "\<exists>t. find (owned (map lower i) uid) store = Some t
           \<and> task_id t' = task_id t \<and> createdAt t' = createdAt t \<and> updatedAt t' = now
           \<and> (b ''title'' = None \<longrightarrow> title t' = title t)
           \<and> (b ''description'' = None \<longrightarrow> description t' = description t)
           \<and> (b ''completed'' = None \<longrightarrow> completed t' = completed t)
           \<and> (b ''priority'' = None \<longrightarrow> priority t' = priority t)
           \<and> (b ''dueDate'' = None \<longrightarrow> dueDate t' = dueDate t)
           \<and> (b ''user'' = None \<longrightarrow> user t' = user t)"
proof -
  from put_updated [OF assms] obtain t u where
    t: "find (owned (map lower i) uid) store = Some t"
    and u: "cast_update L (snd (run_chains (update_chains L) b)) = Some u"
    and t': "t' = apply_update u now t"
    by blast
  from cast_update_absent [OF u]
  have "(b ''title'' = None \<longrightarrow> u_title u = None)
       \<and> (b ''description'' = None \<longrightarrow> u_description u = None)
       \<and> (b ''completed'' = None \<longrightarrow> u_completed u = None)
       \<and> (b ''priority'' = None \<longrightarrow> u_priority u = None)
       \<and> (b ''dueDate'' = None \<longrightarrow> u_dueDate u = None)
       \<and> (b ''user'' = None \<longrightarrow> u_user u = None)"
    by (simp add: snd_run_chains_update)
  then show ?thesis
    using t by (simp add: t' apply_update_def)
qed

lemma update_first_length: "length (update_first P f xs) = length xs"
  by (induction xs) simp_all

lemma update_first_other:
  "\<not> P x \<Longrightarrow> x \<in> set xs \<Longrightarrow> x \<in> set (update_first P f xs)"
  by (induction xs) auto

end
